theory Spec2Isabelle
  imports Complex_Main "HOL-Library.Word"
begin

section \<open>Machine types of the target board\<close>

text \<open>
  Both sketches are written for a 5 V Arduino with a 10-bit converter (\<^verbatim>\<open>#define VRef 5.0\<close>,
  \<^verbatim>\<open>readVal * VRef / 1024\<close>) and the RadioHead ASK driver on its default pins 11 and 12,
  that is an ATmega board. There \<^verbatim>\<open>uint8_t\<close> is 8 bits, \<^verbatim>\<open>int\<close> is 16 bits in two's
  complement and \<^verbatim>\<open>unsigned long\<close> is 32 bits. Arithmetic on words wraps around, which is
  what the 16-bit multiplication and the 32-bit subtraction of the compiled sketch do.
\<close>

type_synonym u8 = "8 word"
type_synonym cint = "16 word"
type_synonym ulong = "32 word"

section \<open>The sensor hub (HubNode.ino)\<close>

subsection \<open>Configuration\<close>

definition TargetTemp :: int where "TargetTemp = 21"
definition TargetHumidity :: int where "TargetHumidity = 40"
definition ToleranceTemp :: int where "ToleranceTemp = 1"
definition ToleranceHumidity :: int where "ToleranceHumidity = 5"

definition TimeOnHeater :: u8 where "TimeOnHeater = 20"
definition TimeOnHumidifier :: u8 where "TimeOnHumidifier = 15"
definition TimeOnFan :: u8 where "TimeOnFan = 30"

definition HubNode :: u8 where "HubNode = 0"
definition HumNode :: u8 where "HumNode = 1"
definition HeatNode :: u8 where "HeatNode = 2"
definition FanNode :: u8 where "FanNode = 3"

subsection \<open>Transmission\<close>

text \<open>
  \<^verbatim>\<open>powerNode\<close> fills the three bytes of \<^verbatim>\<open>transmissionPulse\<close> and hands them to the
  transmitter. The radio is modelled by the list of messages handed to \<^verbatim>\<open>Transmitter.send\<close>
  so far, oldest first; the result of \<^verbatim>\<open>send\<close> is ignored by the sketch.
\<close>

definition transmissionPulse :: "u8 \<Rightarrow> bool \<Rightarrow> u8 \<Rightarrow> u8 list" where
  "transmissionPulse ID powerOn len = [ID, of_bool powerOn, len]"

definition powerNode :: "u8 \<Rightarrow> bool \<Rightarrow> u8 \<Rightarrow> u8 list list \<Rightarrow> u8 list list" where
  "powerNode ID powerOn len sent = sent @ [transmissionPulse ID powerOn len]"

subsection \<open>One cycle of the hub\<close>

text \<open>
  The four flags of \<^verbatim>\<open>loop\<close>. The readings \<^verbatim>\<open>getTemp()\<close> and \<^verbatim>\<open>getHumidity()\<close> are
  inputs of the cycle. They are finite floats (a 10-bit sample scaled by constants), and
  the thresholds 20, 22, 35 and 45 are integers that a float holds exactly, so each
  comparison of the sketch is the comparison of the two numbers as reals.
\<close>

record decisions =
  HeatingOn :: bool
  HeatingOff :: bool
  HumidifierOn :: bool
  HumidifierOff :: bool

definition decide :: "real \<Rightarrow> real \<Rightarrow> decisions" where
  "decide temp humidity =
     \<lparr> HeatingOn =
         (if temp > of_int (TargetTemp + ToleranceTemp) then False
          else if temp < of_int (TargetTemp - ToleranceTemp) then True else False),
       HeatingOff =
         (if temp > of_int (TargetTemp + ToleranceTemp) then True else False),
       HumidifierOn =
         (if humidity > of_int (TargetHumidity + ToleranceHumidity) then False
          else if humidity < of_int (TargetHumidity - ToleranceHumidity) then True else False),
       HumidifierOff =
         (if humidity > of_int (TargetHumidity + ToleranceHumidity) then True else False) \<rparr>"

text \<open>The transmissions of \<^verbatim>\<open>loop\<close>, in the order of the sketch.\<close>

definition dispatch :: "decisions \<Rightarrow> u8 list list \<Rightarrow> u8 list list" where
  "dispatch d sent =
     (let sent1 = (if HumidifierOn d then powerNode HumNode True TimeOnHumidifier sent
                   else if HumidifierOff d then powerNode HumNode False 0 sent
                   else sent);
          sent2 = (if HeatingOn d then powerNode HeatNode True TimeOnHeater sent1
                   else if HeatingOff d then powerNode HeatNode False 0 sent1
                   else sent1)
      in if HeatingOn d \<or> HumidifierOn d then powerNode FanNode True TimeOnFan sent2
         else sent2)"

definition hub_loop :: "real \<Rightarrow> real \<Rightarrow> u8 list list \<Rightarrow> u8 list list" where
  "hub_loop temp humidity sent = dispatch (decide temp humidity) sent"

text \<open>
  The outcome for a quantity, read from its two flags the way the transmissions of
  \<^verbatim>\<open>loop\<close> read them: the \<^verbatim>\<open>On\<close> flag first, then the \<^verbatim>\<open>Off\<close> flag.
\<close>

datatype outcome = ActivateRequested | DeactivateRequested | NoChange

definition heater :: "decisions \<Rightarrow> outcome" where
  "heater d =
     (if HeatingOn d then ActivateRequested
      else if HeatingOff d then DeactivateRequested else NoChange)"

definition humidifier :: "decisions \<Rightarrow> outcome" where
  "humidifier d =
     (if HumidifierOn d then ActivateRequested
      else if HumidifierOff d then DeactivateRequested else NoChange)"

section \<open>The power control leaf node\<close>

definition NodeID :: u8 where "NodeID = 3"

text \<open>
  The globals of the sketch, and the level last written to \<^verbatim>\<open>PowerPin\<close>
  (\<open>True\<close> for \<^verbatim>\<open>HIGH\<close>, the relay energized).
\<close>

record leaf_state =
  PowerIsOn :: bool
  TimeStart :: ulong
  OnPeriod :: cint
  PowerPin :: bool

text \<open>
  Globals are zero-initialized, and the output register of the pin is clear when
  \<^verbatim>\<open>setup\<close> makes it an output.
\<close>

definition setup_state :: leaf_state where
  "setup_state = \<lparr> PowerIsOn = False, TimeStart = 0, OnPeriod = 0, PowerPin = False \<rparr>"

text \<open>
  Every function takes the value \<open>now\<close> that \<^verbatim>\<open>millis()\<close> returns when it is called.
  In \<^verbatim>\<open>millis() - TimeStart > OnPeriod\<close> the left side is an \<^verbatim>\<open>unsigned long\<close>, so the
  \<^verbatim>\<open>int\<close> on the right is converted to \<^verbatim>\<open>unsigned long\<close> (sign extension, \<open>scast\<close>) and
  the comparison is unsigned.
\<close>

definition checkTime :: "ulong \<Rightarrow> leaf_state \<Rightarrow> leaf_state" where
  "checkTime now s =
     (if now - TimeStart s > scast (OnPeriod s)
      then s\<lparr>PowerPin := False, PowerIsOn := False\<rparr>
      else s)"

text \<open>
  In \<^verbatim>\<open>onTime * 1000\<close> the byte is promoted to \<^verbatim>\<open>int\<close> and the product is an \<^verbatim>\<open>int\<close>.
\<close>

definition powerOn :: "ulong \<Rightarrow> u8 \<Rightarrow> leaf_state \<Rightarrow> leaf_state" where
  "powerOn now onTime s =
     s\<lparr>TimeStart := now, PowerIsOn := True, OnPeriod := ucast onTime * 1000, PowerPin := True\<rparr>"

definition powerOff :: "ulong \<Rightarrow> u8 \<Rightarrow> leaf_state \<Rightarrow> leaf_state" where
  "powerOff now offTime s =
     (if offTime = 0 \<and> PowerIsOn s then s\<lparr>PowerPin := False, PowerIsOn := False\<rparr>
      else if PowerIsOn s then s\<lparr>TimeStart := now, OnPeriod := ucast offTime * 1000\<rparr>
      else s)"

subsection \<open>Reception\<close>

text \<open>
  \<^verbatim>\<open>buf\<close> is a local array of \<^verbatim>\<open>RH_ASK_MAX_MESSAGE_LEN\<close> bytes that the sketch does not
  initialize: before the call of \<^verbatim>\<open>recv\<close> it holds whatever the stack held, the function
  \<open>stack\<close> from index to byte. RadioHead's \<^verbatim>\<open>recv\<close> copies the bytes of the message to the
  front of the buffer and leaves the rest of it alone; its constant is 60.
\<close>

definition RH_ASK_MAX_MESSAGE_LEN :: nat where "RH_ASK_MAX_MESSAGE_LEN = 60"

definition recv :: "(nat \<Rightarrow> u8) \<Rightarrow> u8 list \<Rightarrow> u8 list" where
  "recv stack msg =
     map (\<lambda>i. if i < length msg then msg ! i else stack i) [0..<RH_ASK_MAX_MESSAGE_LEN]"

text \<open>
  The three reads of \<^verbatim>\<open>loop\<close>: \<^verbatim>\<open>buf[0]\<close>, \<^verbatim>\<open>(boolean) buf[1] == true\<close> and \<^verbatim>\<open>buf[2]\<close>.
  \<^verbatim>\<open>boolean\<close> is \<^verbatim>\<open>bool\<close>, so the cast is true for every byte but 0.
\<close>

definition decode :: "u8 list \<Rightarrow> u8 \<times> bool \<times> u8" where
  "decode buf = (buf ! 0, buf ! 1 \<noteq> 0, buf ! 2)"

text \<open>
  One iteration of \<^verbatim>\<open>loop\<close>. \<open>rx\<close> is \<open>Some msg\<close> when \<^verbatim>\<open>Receiver.recv\<close> returns true with
  the message \<open>msg\<close>, and \<open>None\<close> when it returns false (the wait of 500 ms ran out, or
  the frame was bad).
\<close>

definition loop :: "ulong \<Rightarrow> (nat \<Rightarrow> u8) \<Rightarrow> u8 list option \<Rightarrow> leaf_state \<Rightarrow> leaf_state" where
  "loop now stack rx s =
     (case rx of
        Some msg \<Rightarrow>
          (case decode (recv stack msg) of
             (target, activate, duration) \<Rightarrow>
               if NodeID = target
               then (if activate then powerOn now duration s else powerOff now duration s)
               else s)
      | None \<Rightarrow> if PowerIsOn s then checkTime now s else s)"

text \<open>
  The stack where an earlier use left the bytes \<open>old\<close> at the place of the buffer (zeros
  behind them), for concrete runs: for instance the bytes that the buffer held in an
  earlier iteration.
\<close>

definition leftover :: "u8 list \<Rightarrow> nat \<Rightarrow> u8" where
  "leftover old i = (if i < length old then old ! i else 0)"

text \<open>Consecutive iterations in which \<^verbatim>\<open>recv\<close> returns false, at the given clock values.\<close>

fun quiet :: "ulong list \<Rightarrow> leaf_state \<Rightarrow> leaf_state" where
  "quiet [] s = s"
| "quiet (t # ts) s = quiet ts (loop t (leftover []) None s)"

text \<open>Any iterations: clock value, stack contents and reception of each.\<close>

fun run :: "(ulong \<times> (nat \<Rightarrow> u8) \<times> u8 list option) list \<Rightarrow> leaf_state \<Rightarrow> leaf_state" where
  "run [] s = s"
| "run ((now, stack, rx) # ticks) s = run ticks (loop now stack rx s)"

text \<open>The relay line agrees with the flag.\<close>

definition consistent :: "leaf_state \<Rightarrow> bool" where
  "consistent s = (PowerIsOn s = PowerPin s)"

section \<open>Properties of the packet layout\<close>

lemma recv_nth:
  "i < RH_ASK_MAX_MESSAGE_LEN \<Longrightarrow>
     recv stack msg ! i = (if i < length msg then msg ! i else stack i)"
  by (simp add: recv_def)

lemma decode_recv:
  "decode (recv stack msg) =
     ((if 0 < length msg then msg ! 0 else stack 0),
      (if 1 < length msg then msg ! 1 else stack 1) \<noteq> 0,
      (if 2 < length msg then msg ! 2 else stack 2))"
  by (simp add: decode_def recv_nth RH_ASK_MAX_MESSAGE_LEN_def)

lemma pulse_eq:
  "transmissionPulse i a d = transmissionPulse j b e \<longleftrightarrow> i = j \<and> a = b \<and> d = e"
  by (cases a; cases b) (simp_all add: transmissionPulse_def)

text \<open>
  C6. What the leaf reads from its buffer after receiving the three bytes that
  \<^verbatim>\<open>powerNode\<close> sends is the identity, the flag and the duration that \<^verbatim>\<open>powerNode\<close> was
  called with, for every identity and duration of a byte and both values of the flag,
  whatever the buffer held before.
\<close>

theorem decode_round_trip:
  "decode (recv stack (transmissionPulse t a d)) = (t, a, d)"
  by (simp add: decode_recv transmissionPulse_def)

section \<open>Properties of the hub\<close>

lemmas hub_config =
  TargetTemp_def TargetHumidity_def ToleranceTemp_def ToleranceHumidity_def

text \<open>
  C7. For the temperature and for the humidity, with the target and the tolerance of
  the quantity: the outcome is \<open>ActivateRequested\<close> exactly when the reading is below
  target minus tolerance, \<open>DeactivateRequested\<close> exactly when it is above target plus
  tolerance, and \<open>NoChange\<close> exactly when it is within the band, ends included. A
  reading at the target or at either end of the band gives \<open>NoChange\<close>. The outcome is a
  function of the readings alone, so the same reading gives the same outcome each time.
\<close>

theorem hysteresis_decision:
  "(heater (decide v h) = ActivateRequested \<longleftrightarrow>
      v < real_of_int TargetTemp - real_of_int ToleranceTemp) \<and>
   (heater (decide v h) = DeactivateRequested \<longleftrightarrow>
      v > real_of_int TargetTemp + real_of_int ToleranceTemp) \<and>
   (heater (decide v h) = NoChange \<longleftrightarrow>
      real_of_int TargetTemp - real_of_int ToleranceTemp \<le> v \<and>
      v \<le> real_of_int TargetTemp + real_of_int ToleranceTemp) \<and>
   (humidifier (decide t w) = ActivateRequested \<longleftrightarrow>
      w < real_of_int TargetHumidity - real_of_int ToleranceHumidity) \<and>
   (humidifier (decide t w) = DeactivateRequested \<longleftrightarrow>
      w > real_of_int TargetHumidity + real_of_int ToleranceHumidity) \<and>
   (humidifier (decide t w) = NoChange \<longleftrightarrow>
      real_of_int TargetHumidity - real_of_int ToleranceHumidity \<le> w \<and>
      w \<le> real_of_int TargetHumidity + real_of_int ToleranceHumidity) \<and>
   heater (decide (real_of_int TargetTemp) h) = NoChange \<and>
   heater (decide (real_of_int TargetTemp + real_of_int ToleranceTemp) h) = NoChange \<and>
   heater (decide (real_of_int TargetTemp - real_of_int ToleranceTemp) h) = NoChange \<and>
   humidifier (decide t (real_of_int TargetHumidity)) = NoChange \<and>
   humidifier (decide t (real_of_int TargetHumidity + real_of_int ToleranceHumidity)) = NoChange \<and>
   humidifier (decide t (real_of_int TargetHumidity - real_of_int ToleranceHumidity)) = NoChange"
  by (simp add: heater_def humidifier_def decide_def hub_config)

text \<open>
  C8. With a temperature reading of 18 against the target 21 and tolerance 1, and a
  humidity reading within its band, the outcome is \<open>ActivateRequested\<close> for the heater
  and \<open>NoChange\<close> for the humidifier, and the cycle sends exactly two messages: first
  (HeatNode, true, TimeOnHeater), then (FanNode, true, TimeOnFan).
\<close>

theorem scenario_cold_room:
  assumes "real_of_int TargetHumidity - real_of_int ToleranceHumidity \<le> h"
    and "h \<le> real_of_int TargetHumidity + real_of_int ToleranceHumidity"
  shows "TargetTemp = 21 \<and> ToleranceTemp = 1 \<and>
         heater (decide 18 h) = ActivateRequested \<and>
         humidifier (decide 18 h) = NoChange \<and>
         hub_loop 18 h [] =
           [transmissionPulse HeatNode True TimeOnHeater,
            transmissionPulse FanNode True TimeOnFan]"
  using assms
  by (simp add: hub_loop_def dispatch_def powerNode_def heater_def humidifier_def
      decide_def hub_config)

theorem scenario_cold_room_witness:
  "real_of_int TargetHumidity - real_of_int ToleranceHumidity \<le> 40 \<and>
   40 \<le> real_of_int TargetHumidity + real_of_int ToleranceHumidity \<and>
   heater (decide 18 40) = ActivateRequested \<and>
   hub_loop 18 40 [] = [[2, 1, 20], [3, 1, 30]]"
proof -
  have lo: "real_of_int TargetHumidity - real_of_int ToleranceHumidity \<le> 40"
    by (simp add: hub_config)
  have hi: "40 \<le> real_of_int TargetHumidity + real_of_int ToleranceHumidity"
    by (simp add: hub_config)
  show ?thesis
    using lo hi scenario_cold_room [OF lo hi]
    by (simp add: transmissionPulse_def HeatNode_def FanNode_def TimeOnHeater_def
        TimeOnFan_def)
qed

text \<open>
  C9. In a cycle the message (FanNode, true, TimeOnFan) is among the messages sent
  exactly when the outcome for the heater or for the humidifier is \<open>ActivateRequested\<close>,
  and every message of the cycle whose first byte is FanNode is that activation: no
  cycle sends a deactivation to the fan.
\<close>

theorem fan_only_activated:
  "(transmissionPulse FanNode True TimeOnFan \<in> set (hub_loop temp humidity []) \<longleftrightarrow>
      heater (decide temp humidity) = ActivateRequested \<or>
      humidifier (decide temp humidity) = ActivateRequested) \<and>
   (\<forall>p \<in> set (hub_loop temp humidity []).
      p ! 0 = FanNode \<longrightarrow> p = transmissionPulse FanNode True TimeOnFan)"
  by (simp add: hub_loop_def dispatch_def powerNode_def heater_def humidifier_def Let_def
      pulse_eq HumNode_def HeatNode_def FanNode_def)
    (simp add: transmissionPulse_def)

theorem fan_only_activated_witness:
  "heater (decide 18 40) = ActivateRequested \<and>
   hub_loop 18 40 [] = [[2, 1, 20], [3, 1, 30]] \<and>
   transmissionPulse FanNode True TimeOnFan \<in> set (hub_loop 18 40 []) \<and>
   [3, 1, 30] ! 0 = FanNode \<and>
   [3, 1, 30] = transmissionPulse FanNode True TimeOnFan \<and>
   heater (decide 25 50) = DeactivateRequested \<and>
   humidifier (decide 25 50) = DeactivateRequested \<and>
   hub_loop 25 50 [] = [[1, 0, 0], [2, 0, 0]] \<and>
   transmissionPulse FanNode True TimeOnFan \<notin> set (hub_loop 25 50 [])"
proof -
  have a: "heater (decide 18 40) = ActivateRequested"
    by (simp add: heater_def decide_def hub_config)
  have b: "hub_loop 18 40 [] = [[2, 1, 20], [3, 1, 30]]"
    by (simp add: hub_loop_def dispatch_def powerNode_def decide_def hub_config
        transmissionPulse_def HeatNode_def FanNode_def TimeOnHeater_def TimeOnFan_def)
  have c: "heater (decide 25 50) = DeactivateRequested"
    and d: "humidifier (decide 25 50) = DeactivateRequested"
    by (simp_all add: heater_def humidifier_def decide_def hub_config)
  have e: "hub_loop 25 50 [] = [[1, 0, 0], [2, 0, 0]]"
    by (simp add: hub_loop_def dispatch_def powerNode_def decide_def hub_config
        transmissionPulse_def HumNode_def HeatNode_def)
  have f: "[3, 1, 30] ! 0 = FanNode"
    by (simp add: FanNode_def)
  from fan_only_activated [of 18 40] a
  have g: "transmissionPulse FanNode True TimeOnFan \<in> set (hub_loop 18 40 [])"
    by simp
  from fan_only_activated [of 18 40] b f
  have h: "[3, 1, 30] = transmissionPulse FanNode True TimeOnFan"
    by simp
  from fan_only_activated [of 25 50] c d
  have i: "transmissionPulse FanNode True TimeOnFan \<notin> set (hub_loop 25 50 [])"
    by simp
  from a b c d e f g h i show ?thesis
    by (simp only: simp_thms)
qed

section \<open>Properties of the leaf node\<close>

lemma loop_None: "loop now stack None s = (if PowerIsOn s then checkTime now s else s)"
  by (simp add: loop_def)

lemma loop_addressed:
  "loop now stack (Some (transmissionPulse NodeID a d)) s =
     (if a then powerOn now d s else powerOff now d s)"
  by (simp add: loop_def decode_recv transmissionPulse_def)

lemmas leaf_eval =
  loop_def decode_recv transmissionPulse_def leftover_def NodeID_def powerOn_def powerOff_def
  checkTime_def setup_state_def

subsection \<open>The flag and the relay line\<close>

lemma consistent_powerOn: "consistent (powerOn now onTime s)"
  by (simp add: consistent_def powerOn_def)

lemma consistent_powerOff: "consistent s \<Longrightarrow> consistent (powerOff now offTime s)"
  by (simp add: consistent_def powerOff_def)

lemma consistent_checkTime: "consistent s \<Longrightarrow> consistent (checkTime now s)"
  by (simp add: consistent_def checkTime_def)

lemma consistent_loop: "consistent s \<Longrightarrow> consistent (loop now stack rx s)"
  by (simp add: loop_def consistent_powerOn consistent_powerOff consistent_checkTime
      split: option.split prod.split)

lemma consistent_run: "consistent s \<Longrightarrow> consistent (run ticks s)"
proof (induction ticks arbitrary: s)
  case Nil
  then show ?case by simp
next
  case (Cons tick ticks)
  obtain now stack rx where tick: "tick = (now, stack, rx)"
    by (cases tick)
  from Cons.prems have "consistent (loop now stack rx s)"
    by (rule consistent_loop)
  then have "consistent (run ticks (loop now stack rx s))"
    by (rule Cons.IH)
  then show ?case by (simp add: tick)
qed

text \<open>
  C10. After \<^verbatim>\<open>setup\<close> the flag \<^verbatim>\<open>PowerIsOn\<close> is false and the relay line is low; each of
  \<^verbatim>\<open>powerOn\<close>, \<^verbatim>\<open>powerOff\<close> and \<^verbatim>\<open>checkTime\<close>, and a whole iteration of \<^verbatim>\<open>loop\<close>, started
  where the flag agrees with the level last written to the line, ends where they agree;
  so they agree after any number of iterations from the start, whatever is received.
\<close>

theorem power_flag_matches_output:
  "consistent setup_state \<and>
   (consistent s \<longrightarrow>
      consistent (powerOn now t s) \<and> consistent (powerOff now t s) \<and>
      consistent (checkTime now s) \<and> consistent (loop now stack rx s)) \<and>
   consistent (run ticks setup_state)"
proof -
  have init: "consistent setup_state"
    by (simp add: consistent_def setup_state_def)
  show ?thesis
    using init consistent_run [OF init, of ticks]
    by (simp add: consistent_powerOn consistent_powerOff consistent_checkTime consistent_loop)
qed

theorem power_flag_matches_output_witness:
  "consistent setup_state \<and>
   consistent (powerOn 0 30 setup_state) \<and>
   consistent (powerOff 7 0 (powerOn 0 30 setup_state)) \<and>
   consistent (checkTime 31000 (powerOn 0 30 setup_state)) \<and>
   PowerIsOn (powerOn 0 30 setup_state) \<and> PowerPin (powerOn 0 30 setup_state) \<and>
   \<not> PowerIsOn (checkTime 31000 (powerOn 0 30 setup_state)) \<and>
   \<not> PowerPin (checkTime 31000 (powerOn 0 30 setup_state)) \<and>
   consistent (run [(0, leftover [], Some [3, 1, 30]), (31000, leftover [], None)] setup_state)"
proof -
  have c: "consistent setup_state"
    using power_flag_matches_output [of setup_state 0 30 "leftover []" None "[]"] by simp
  have d: "consistent (powerOn 0 30 setup_state)"
    using c power_flag_matches_output [of setup_state 0 30 "leftover []" None "[]"] by simp
  show ?thesis
    using c d power_flag_matches_output [of "powerOn 0 30 setup_state" 7 0 "leftover []" None "[]"]
      power_flag_matches_output [of "powerOn 0 30 setup_state" 31000 0 "leftover []" None
        "[(0, leftover [], Some [3, 1, 30]), (31000, leftover [], None)]"]
    by (simp add: powerOn_def checkTime_def setup_state_def)
qed

subsection \<open>The expiry check\<close>

lemma uint_scast_nonneg:
  assumes "0 \<le> sint (w :: cint)"
  shows "uint (scast w :: ulong) = sint w"
proof -
  have "sint w < 2 ^ (LENGTH(16) - 1)"
    by (rule sint_lt)
  then have "sint w < 2 ^ 15" by simp
  also have "(2 :: int) ^ 15 < 2 ^ LENGTH(32)" by simp
  finally have "take_bit LENGTH(32) (sint w) = sint w"
    using assms by (intro take_bit_int_eq_self)
  then show ?thesis
    by (simp only: scast_eq uint_word_of_int_eq)
qed

text \<open>
  C1, as the sketch has it. While the flag is set and the period held in \<^verbatim>\<open>OnPeriod\<close>
  is not negative, in every iteration in which \<^verbatim>\<open>recv\<close> returns false: if the number of
  milliseconds since \<^verbatim>\<open>TimeStart\<close> (on the 32-bit clock) is greater than the number of
  milliseconds in \<^verbatim>\<open>OnPeriod\<close>, then the iteration writes the relay line low and clears
  the flag.
\<close>

theorem expiry_on_quiet_tick:
  assumes "PowerIsOn s" and "0 \<le> sint (OnPeriod s)"
    and "sint (OnPeriod s) < uint (now - TimeStart s)"
  shows "loop now stack None s = s\<lparr>PowerPin := False, PowerIsOn := False\<rparr> \<and>
         \<not> PowerIsOn (loop now stack None s) \<and> \<not> PowerPin (loop now stack None s)"
proof -
  have "scast (OnPeriod s) < now - TimeStart s"
    using assms(3) by (simp add: word_less_def uint_scast_nonneg [OF assms(2)])
  with assms(1) show ?thesis
    by (simp add: loop_def checkTime_def)
qed

theorem expiry_on_quiet_tick_witness:
  "PowerIsOn (powerOn 0 1 setup_state) \<and>
   0 \<le> sint (OnPeriod (powerOn 0 1 setup_state)) \<and>
   sint (OnPeriod (powerOn 0 1 setup_state))
     < uint ((1500 :: ulong) - TimeStart (powerOn 0 1 setup_state)) \<and>
   \<not> PowerIsOn (loop 1500 (leftover []) None (powerOn 0 1 setup_state)) \<and>
   \<not> PowerPin (loop 1500 (leftover []) None (powerOn 0 1 setup_state))"
proof -
  have a: "PowerIsOn (powerOn 0 1 setup_state)"
    by (simp add: powerOn_def)
  have b: "0 \<le> sint (OnPeriod (powerOn 0 1 setup_state))"
    by (simp add: powerOn_def)
  have c: "sint (OnPeriod (powerOn 0 1 setup_state))
             < uint ((1500 :: ulong) - TimeStart (powerOn 0 1 setup_state))"
    by (simp add: powerOn_def setup_state_def)
  show ?thesis
    using a b c expiry_on_quiet_tick [OF a b c, of "leftover []"] by simp
qed

text \<open>
  C1 as stated fails: \<^verbatim>\<open>checkTime\<close> is called in the \<^verbatim>\<open>else\<close> branch of the reception only.
  The relay was switched on at 0 for one second; the iteration at 5000 ms receives the
  hub's message for the heater, and the relay is still on after it.
\<close>

theorem expiry_skipped_counterexample:
  "PowerIsOn (powerOn 0 1 setup_state) \<and>
   sint (OnPeriod (powerOn 0 1 setup_state)) = 1000 \<and>
   uint ((5000 :: ulong) - TimeStart (powerOn 0 1 setup_state)) = 5000 \<and>
   scast (OnPeriod (powerOn 0 1 setup_state))
     < (5000 :: ulong) - TimeStart (powerOn 0 1 setup_state) \<and>
   PowerIsOn (loop 5000 (leftover []) (Some (transmissionPulse HeatNode True TimeOnHeater))
     (powerOn 0 1 setup_state)) \<and>
   PowerPin (loop 5000 (leftover []) (Some (transmissionPulse HeatNode True TimeOnHeater))
     (powerOn 0 1 setup_state))"
  by (simp add: loop_def decode_recv transmissionPulse_def HeatNode_def NodeID_def powerOn_def
      setup_state_def)

subsection \<open>Messages for other nodes, and short messages\<close>

text \<open>
  C5, as the sketch has it. A received message of any length from one byte on whose
  first byte is not \<^verbatim>\<open>NodeID\<close> changes neither the globals nor the relay line. (The
  sketch never looks at the length of what it received.)
\<close>

theorem unaddressed_discarded:
  assumes "msg \<noteq> []" and "hd msg \<noteq> NodeID"
  shows "loop now stack (Some msg) s = s"
  using assms by (simp add: loop_def decode_recv hd_conv_nth)

theorem unaddressed_discarded_witness:
  "transmissionPulse HeatNode True TimeOnHeater \<noteq> [] \<and>
   hd (transmissionPulse HeatNode True TimeOnHeater) \<noteq> NodeID \<and>
   loop 100 (leftover []) (Some (transmissionPulse HeatNode True TimeOnHeater)) setup_state
     = setup_state \<and>
   loop 100 (leftover [3, 1, 30]) (Some [2]) (powerOn 0 30 setup_state)
     = powerOn 0 30 setup_state"
proof -
  have a: "transmissionPulse HeatNode True TimeOnHeater \<noteq> []"
    by (simp add: transmissionPulse_def)
  have b: "hd (transmissionPulse HeatNode True TimeOnHeater) \<noteq> NodeID"
    by (simp add: transmissionPulse_def HeatNode_def NodeID_def)
  have c: "[2 :: u8] \<noteq> []" by simp
  have d: "hd [2 :: u8] \<noteq> NodeID" by (simp add: NodeID_def)
  show ?thesis
    using a b unaddressed_discarded [OF a b] unaddressed_discarded [OF c d] by simp
qed

text \<open>
  C5 as stated fails: a message of one byte is not rejected. Its byte is \<^verbatim>\<open>NodeID\<close>, the
  bytes behind it in the buffer are those of the activation received before, and the
  relay, which was off, is switched on for 30 seconds.
\<close>

theorem short_message_counterexample:
  "length [NodeID] < 3 \<and> \<not> PowerIsOn setup_state \<and> \<not> PowerPin setup_state \<and>
   loop 0 (leftover [3, 1, 30]) (Some [NodeID]) setup_state =
     \<lparr> PowerIsOn = True, TimeStart = 0, OnPeriod = 30000, PowerPin = True \<rparr>"
  by (simp add: loop_def decode_recv leftover_def NodeID_def powerOn_def setup_state_def)

subsection \<open>Iterations without reception\<close>

lemma quiet_append: "quiet (ts @ us) s = quiet us (quiet ts s)"
  by (induction ts arbitrary: s) simp_all

lemma quiet_off: "\<not> PowerIsOn s \<Longrightarrow> quiet ts s = s"
  by (induction ts) (simp_all add: loop_None)

lemma quiet_keeps_on:
  "\<forall>t \<in> set ts. t - TimeStart s \<le> scast (OnPeriod s) \<Longrightarrow> quiet ts s = s"
  by (induction ts) (simp_all add: loop_None checkTime_def not_less [symmetric])

lemma quiet_expires:
  assumes "PowerIsOn s"
    and "\<forall>t \<in> set ts. t - TimeStart s \<le> scast (OnPeriod s)"
    and "scast (OnPeriod s) < t' - TimeStart s"
  shows "quiet (ts @ t' # us) s = s\<lparr>PowerPin := False, PowerIsOn := False\<rparr>"
proof -
  have "quiet (ts @ t' # us) s = quiet us (loop t' (leftover []) None s)"
    using assms(2) by (simp add: quiet_append quiet_keeps_on)
  also have "loop t' (leftover []) None s = s\<lparr>PowerPin := False, PowerIsOn := False\<rparr>"
    using assms(1,3) by (simp add: loop_None checkTime_def)
  finally show ?thesis by (simp add: quiet_off)
qed

subsection \<open>Durations that fit the 16-bit period\<close>

text \<open>
  Up to 32 seconds the product \<^verbatim>\<open>onTime * 1000\<close> is below \<open>2 ^ 15\<close>: \<^verbatim>\<open>OnPeriod\<close> holds
  the number of milliseconds, and the window is kept to the millisecond, at the
  granularity of the iterations.
\<close>

lemma period_of_nat: "(ucast (P :: u8) * 1000 :: cint) = word_of_nat (1000 * unat P)"
  by (simp add: mult.commute)

lemma sint_millis:
  assumes "n \<le> 32"
  shows "sint (word_of_nat (1000 * n) :: cint) = int (1000 * n)"
proof -
  have "int (1000 * n) < 2 ^ 15" using assms by simp
  then have "signed_take_bit 15 (int (1000 * n)) = int (1000 * n)"
    by (intro signed_take_bit_int_eq_self) simp_all
  then show ?thesis
    by (simp only: signed_of_nat) simp
qed

lemma period_nonneg:
  assumes "unat (P :: u8) \<le> 32"
  shows "0 \<le> sint (ucast P * 1000 :: cint)"
  by (simp only: period_of_nat sint_millis [OF assms] of_nat_0_le_iff)

lemma scast_millis:
  assumes "n \<le> 32"
  shows "(scast (word_of_nat (1000 * n) :: cint) :: ulong) = word_of_nat (1000 * n)"
  by (simp only: scast_eq sint_millis [OF assms] of_int_of_nat_eq)

lemma period_unat:
  assumes "unat (P :: u8) \<le> 32"
  shows "unat (scast (ucast P * 1000 :: cint) :: ulong) = 1000 * unat P"
proof -
  have "1000 * unat P < 2 ^ 32" using assms by simp
  then show ?thesis
    by (simp only: period_of_nat scast_millis [OF assms] unat_of_nat) simp
qed

lemma window_within_int_range:
  assumes "unat (P :: u8) \<le> 32"
    and "TimeStart s = t0" and "OnPeriod s = ucast P * 1000" and "PowerIsOn s"
    and "\<forall>t \<in> set ts. unat (t - t0) \<le> 1000 * unat P"
    and "1000 * unat P < unat (t' - t0)"
  shows "quiet ts s = s \<and>
         quiet (ts @ t' # us) s = s\<lparr>PowerPin := False, PowerIsOn := False\<rparr>"
proof -
  have keep: "\<forall>t \<in> set ts. t - TimeStart s \<le> scast (OnPeriod s)"
    using assms(2,3,5) by (simp add: word_le_nat_alt period_unat [OF assms(1)])
  have late: "scast (OnPeriod s) < t' - TimeStart s"
    using assms(2,3,6) by (simp add: word_less_nat_alt period_unat [OF assms(1)])
  have "quiet ts s = s"
    using keep by (rule quiet_keeps_on)
  moreover have "quiet (ts @ t' # us) s = s\<lparr>PowerPin := False, PowerIsOn := False\<rparr>"
    using assms(4) keep late by (rule quiet_expires)
  ultimately show ?thesis by simp
qed

lemma watchdog_within_int_range:
  assumes "unat P \<le> 32"
    and "\<forall>t \<in> set ts. unat (t - t0) \<le> 1000 * unat P"
    and "1000 * unat P < unat (t' - t0)"
  shows "PowerIsOn (quiet ts (powerOn t0 P s))"
    and "\<not> PowerIsOn (quiet (ts @ t' # us) (powerOn t0 P s))"
    and "\<not> PowerPin (quiet (ts @ t' # us) (powerOn t0 P s))"
  using window_within_int_range [of P "powerOn t0 P s" t0 ts t' us] assms
  by (simp_all add: powerOn_def)

lemma immediate_off:
  "PowerIsOn s \<Longrightarrow>
     loop now stack (Some (transmissionPulse NodeID False 0)) s =
       s\<lparr>PowerPin := False, PowerIsOn := False\<rparr>"
  by (simp add: loop_addressed powerOff_def)

lemma deferred_off_within_int_range:
  assumes "PowerIsOn s" and "D \<noteq> 0" and "unat D \<le> 32"
    and "\<forall>t \<in> set ts. unat (t - t1) \<le> 1000 * unat D"
    and "1000 * unat D < unat (t' - t1)"
  shows "PowerIsOn (quiet ts (loop t1 stack (Some (transmissionPulse NodeID False D)) s))"
    and "\<not> PowerIsOn (quiet (ts @ t' # us)
            (loop t1 stack (Some (transmissionPulse NodeID False D)) s))"
  using window_within_int_range [of D "powerOff t1 D s" t1 ts t' us] assms
  by (simp_all add: loop_addressed powerOff_def)

lemma renewal_within_int_range:
  assumes "unat P2 \<le> 32"
    and "\<forall>t \<in> set ts. unat (t - t1) \<le> 1000 * unat P2"
  shows "loop t1 stack (Some (transmissionPulse NodeID True P2)) s =
           s\<lparr>TimeStart := t1, PowerIsOn := True, OnPeriod := ucast P2 * 1000, PowerPin := True\<rparr>"
    and "PowerIsOn (quiet ts (loop t1 stack (Some (transmissionPulse NodeID True P2)) s))"
proof -
  show "loop t1 stack (Some (transmissionPulse NodeID True P2)) s =
           s\<lparr>TimeStart := t1, PowerIsOn := True, OnPeriod := ucast P2 * 1000, PowerPin := True\<rparr>"
    by (simp add: loop_addressed powerOn_def)
  have "\<forall>t \<in> set ts. t - TimeStart (powerOn t1 P2 s) \<le> scast (OnPeriod (powerOn t1 P2 s))"
    using assms(2) by (simp add: powerOn_def word_le_nat_alt period_unat [OF assms(1)])
  then have "quiet ts (powerOn t1 P2 s) = powerOn t1 P2 s"
    by (rule quiet_keeps_on)
  then show "PowerIsOn (quiet ts (loop t1 stack (Some (transmissionPulse NodeID True P2)) s))"
    by (simp add: loop_addressed) (simp add: powerOn_def)
qed

subsection \<open>Durations that do not fit\<close>

text \<open>
  From 33 seconds on the number of milliseconds is above 32767, the largest \<^verbatim>\<open>int\<close>,
  so \<^verbatim>\<open>OnPeriod\<close> cannot hold it: 66 seconds become 66000 - 65536 = 464 ms, and
  33 seconds become 33000 - 65536 = -32536, which the comparison of \<^verbatim>\<open>checkTime\<close> reads
  as 4294934760 ms, more than 49 days.
\<close>

text \<open>
  C2 at the durations 66 and 33. The relay is off; the activation for 66 seconds is
  received at 0, and the iteration at 500 ms without reception switches it off, 65.5
  seconds early. After the activation for 33 seconds the relay is still on in the
  iterations at 33.5 s, 34 s and one hour.
\<close>

theorem watchdog_period_overflow:
  "loop 0 (leftover []) (Some (transmissionPulse NodeID True 66)) setup_state =
     \<lparr> PowerIsOn = True, TimeStart = 0, OnPeriod = 464, PowerPin = True \<rparr> \<and>
   quiet [500] (loop 0 (leftover []) (Some (transmissionPulse NodeID True 66)) setup_state) =
     \<lparr> PowerIsOn = False, TimeStart = 0, OnPeriod = 464, PowerPin = False \<rparr> \<and>
   sint (OnPeriod (loop 0 (leftover []) (Some (transmissionPulse NodeID True 33)) setup_state)) =
     - 32536 \<and>
   quiet [33500, 34000, 3600000]
       (loop 0 (leftover []) (Some (transmissionPulse NodeID True 33)) setup_state) =
     \<lparr> PowerIsOn = True, TimeStart = 0, OnPeriod = 33000, PowerPin = True \<rparr>"
  by (simp add: leaf_eval)

text \<open>
  C3 at the delay 66. The relay has been on since 0 for 30 seconds; the deactivation
  with a delay of 66 seconds is received at 1000 ms and leaves it on, and the
  iteration at 1500 ms without reception switches it off, not the one after 67000 ms.
\<close>

theorem deferred_off_overflow:
  "loop 1000 (leftover []) (Some (transmissionPulse NodeID False 66)) (powerOn 0 30 setup_state) =
     \<lparr> PowerIsOn = True, TimeStart = 1000, OnPeriod = 464, PowerPin = True \<rparr> \<and>
   quiet [1500]
       (loop 1000 (leftover []) (Some (transmissionPulse NodeID False 66))
          (powerOn 0 30 setup_state)) =
     \<lparr> PowerIsOn = False, TimeStart = 1000, OnPeriod = 464, PowerPin = False \<rparr>"
  by (simp add: leaf_eval)

text \<open>
  C4 at the new period 66. The relay has been on since 0 for 30 seconds; the
  activation for 66 seconds is received at 10000 ms, and the iteration at 10500 ms
  without reception switches the relay off: before 76000 ms, and before the 30000 ms
  of the first window.
\<close>

theorem renewal_overflow:
  "loop 10000 (leftover []) (Some (transmissionPulse NodeID True 66)) (powerOn 0 30 setup_state) =
     \<lparr> PowerIsOn = True, TimeStart = 10000, OnPeriod = 464, PowerPin = True \<rparr> \<and>
   quiet [10500]
       (loop 10000 (leftover []) (Some (transmissionPulse NodeID True 66))
          (powerOn 0 30 setup_state)) =
     \<lparr> PowerIsOn = False, TimeStart = 10000, OnPeriod = 464, PowerPin = False \<rparr>"
  by (simp add: leaf_eval)

end
